theory Spec2Isabelle
  imports Complex_Main
begin

section \<open>JavaScript strings\<close>

text \<open>
  A JavaScript string is a sequence of code units. Every string literal of
  \<^verbatim>\<open>server.js\<close> lies in the Latin-1 range, so strings are modelled as
  \<^typ>\<open>string\<close>, one \<^typ>\<open>char\<close> per code unit; an accented letter is written by
  its code (\<open>CHR 0xE9\<close> for e-acute, \<open>CHR 0x0A\<close> for the line feed).
  Strings that come in with a request are taken in the same range.
\<close>

text \<open>\<^verbatim>\<open>s.split(c)\<close> for a one-character separator: the pieces between the
  separators, in order; the empty string gives one empty piece.\<close>

fun split_js :: "char \<Rightarrow> string \<Rightarrow> string list" where
  "split_js c [] = [[]]"
| "split_js c (x # xs) =
     (if x = c then [] # split_js c xs
      else (case split_js c xs of
              [] \<Rightarrow> [[x]]
            | y # ys \<Rightarrow> (x # y) # ys))"

text \<open>\<^verbatim>\<open>arr.pop()\<close> read as a value: the last element, \<^verbatim>\<open>undefined\<close> on
  an empty array.\<close>

fun pop_js :: "'a list \<Rightarrow> 'a option" where
  "pop_js [] = None"
| "pop_js [x] = Some x"
| "pop_js (x # y # ys) = pop_js (y # ys)"

text \<open>\<^verbatim>\<open>s.includes(p)\<close>: \<open>p\<close> occurs in \<open>s\<close> as a contiguous substring.\<close>

fun starts_with :: "string \<Rightarrow> string \<Rightarrow> bool" where
  "starts_with s [] = True"
| "starts_with [] (p # ps) = False"
| "starts_with (x # xs) (p # ps) = (x = p \<and> starts_with xs ps)"

fun includes_js :: "string \<Rightarrow> string \<Rightarrow> bool" where
  "includes_js [] p = starts_with [] p"
| "includes_js (x # xs) p = (starts_with (x # xs) p \<or> includes_js xs p)"

text \<open>\<^verbatim>\<open>s.trim()\<close>: the white space and line terminators of ECMAScript that
  lie in the Latin-1 range are TAB, LF, VT, FF, CR, SP and NBSP.\<close>

definition is_space_js :: "char \<Rightarrow> bool" where
  "is_space_js c = (c \<in> {CHR 0x09, CHR 0x0A, CHR 0x0B, CHR 0x0C, CHR 0x0D, CHR 0x20, CHR 0xA0})"

definition trim_js :: "string \<Rightarrow> string" where
  "trim_js s = rev (dropWhile is_space_js (rev (dropWhile is_space_js s)))"

text \<open>\<^verbatim>\<open>s.toLowerCase()\<close> on Latin-1: \<open>A\<close>--\<open>Z\<close> and the accented capitals
  \<open>0xC0\<close>--\<open>0xDE\<close> (the multiplication sign \<open>0xD7\<close> apart) move up by 32.\<close>

definition lower_char :: "char \<Rightarrow> char" where
  "lower_char c =
     (let n = (of_char c :: nat)
      in if (65 \<le> n \<and> n \<le> 90) \<or> (192 \<le> n \<and> n \<le> 222 \<and> n \<noteq> 215)
         then char_of (n + 32) else c)"

definition toLowerCase :: "string \<Rightarrow> string" where
  "toLowerCase s = map lower_char s"

text \<open>A number inside a template literal: its decimal digits.\<close>

definition digit_char :: "nat \<Rightarrow> char" where
  "digit_char d = ''0123456789'' ! (d mod 10)"

function string_of_nat :: "nat \<Rightarrow> string" where
  "string_of_nat n =
     (if n < 10 then [digit_char n]
      else string_of_nat (n div 10) @ [digit_char (n mod 10)])"
  by pat_completeness auto
termination
  by (relation "measure (\<lambda>n. n)") auto

declare string_of_nat.simps [simp del]

definition string_of_int :: "int \<Rightarrow> string" where
  "string_of_int i =
     (if i < 0 then ''-'' @ string_of_nat (nat (- i)) else string_of_nat (nat i))"

text \<open>Truthiness of an optional string: \<^verbatim>\<open>undefined\<close>, \<^verbatim>\<open>null\<close> and the
  empty string are falsy.\<close>

fun truthy :: "string option \<Rightarrow> bool" where
  "truthy None = False"
| "truthy (Some s) = (s \<noteq> [])"

text \<open>\<^verbatim>\<open>x || fallback\<close> on an optional string.\<close>

fun or_else :: "string option \<Rightarrow> string \<Rightarrow> string" where
  "or_else None d = d"
| "or_else (Some s) d = (if s = [] then d else s)"

section \<open>The last input token\<close>

text \<open>
  \<^verbatim>\<open>let lastInput = text ? (text.includes('*') ? text.split('*').pop() : text) : '';\<close>
  \<^verbatim>\<open>if (lastInput === undefined || lastInput === null) lastInput = '';\<close>
  The field \<^verbatim>\<open>text\<close> of the request body is a string or is absent.
\<close>

definition lastInput_of :: "string option \<Rightarrow> string" where
  "lastInput_of text_field =
     (case text_field of
        None \<Rightarrow> []
      | Some t \<Rightarrow>
          if t = [] then []
          else if includes_js t ''*'' then
            (case pop_js (split_js (CHR ''*'') t) of
               None \<Rightarrow> []
             | Some tok \<Rightarrow> tok)
          else t)"

section \<open>Configuration and the two external services\<close>

text \<open>
  The Gemini client and the Twilio client are the program's only ways out. A
  client that was not initialised is \<^verbatim>\<open>null\<close> (\<open>None\<close>); an initialised
  one is the function from the request it is given to what comes back: the
  generated text or a thrown error, the created message or a thrown error with
  its \<^verbatim>\<open>code\<close> and \<^verbatim>\<open>message\<close>.
\<close>

record generate_request =
  model :: string
  contents :: string
  temperature :: real
  maxOutputTokens :: nat

datatype generate_reply =
    Generated "string option"
  | GenerateFailed

record message_request =
  msg_body :: string
  msg_from :: string
  msg_to :: string

datatype create_reply =
    Created string
  | CreateFailed "int option" "string option"

record env =
  ai :: "(generate_request \<Rightarrow> generate_reply) option"
  twilioClient :: "(message_request \<Rightarrow> create_reply) option"
  TWILIO_PHONE_NUMBER :: string

section \<open>sendTwilioSms\<close>

text \<open>\<^verbatim>\<open>/^\+?[1-9]\d{1,14}$/.test(to)\<close>: an optional \<open>+\<close>, one digit from 1 to
  9, then between 1 and 14 further digits, and nothing else.\<close>

definition is_digit_js :: "char \<Rightarrow> bool" where
  "is_digit_js c = (c \<in> set ''0123456789'')"

definition e164_like :: "string \<Rightarrow> bool" where
  "e164_like s =
     (let ds = (case s of [] \<Rightarrow> [] | c # cs \<Rightarrow> if c = CHR ''+'' then cs else s)
      in case ds of
           [] \<Rightarrow> False
         | d # others \<Rightarrow>
             d \<in> set ''123456789''
             \<and> 1 \<le> length others \<and> length others \<le> 14
             \<and> list_all is_digit_js others)"

text \<open>The result is the text handed back to the caller, together with the
  requests that reached \<^verbatim>\<open>twilioClient.messages.create\<close> (none or one).\<close>

definition sendTwilioSms ::
  "env \<Rightarrow> string option \<Rightarrow> string \<Rightarrow> string \<times> message_request list" where
  "sendTwilioSms e to_arg body_arg =
     (case twilioClient e of
        None \<Rightarrow>
          (''Servi'' @ [CHR 0xE7] @ ''o SMS indispon'' @ [CHR 0xED]
             @ ''vel. Verifique as credenciais Twilio.'', [])
      | Some create \<Rightarrow>
          (case to_arg of
             None \<Rightarrow>
               (''N'' @ [CHR 0xFA] @ ''mero do destinat'' @ [CHR 0xE1]
                  @ ''rio ou mensagem em falta.'', [])
           | Some t \<Rightarrow>
               if t = [] \<or> body_arg = [] then
                 (''N'' @ [CHR 0xFA] @ ''mero do destinat'' @ [CHR 0xE1]
                    @ ''rio ou mensagem em falta.'', [])
               else if \<not> e164_like t then
                 (''N'' @ [CHR 0xFA] @ ''mero de destino ('' @ t @ '') inv'' @ [CHR 0xE1]
                    @ ''lido. Use formato internacional (ex: +244XXXXXXXXX).'', [])
               else
                 (let rq = \<lparr>msg_body = body_arg, msg_from = TWILIO_PHONE_NUMBER e,
                            msg_to = t\<rparr>
                  in case create rq of
                       Created sid \<Rightarrow> (''SMS enviado para '' @ t @ ''!'', [rq])
                     | CreateFailed code msg \<Rightarrow>
                         if code = Some 21211 then
                           (''Falha ao enviar SMS: N'' @ [CHR 0xFA] @ ''mero de destino (''
                              @ t @ '') inv'' @ [CHR 0xE1] @ ''lido.'', [rq])
                         else if code = Some 21610 \<or> code = Some 21612
                                 \<or> code = Some 21614 then
                           (''Falha ao enviar SMS: O n'' @ [CHR 0xFA] @ ''mero '' @ t
                              @ '' n'' @ [CHR 0xE3]
                              @ ''o pode receber mensagens deste remetente.'', [rq])
                         else if code = Some 21408 then
                           (''Falha ao enviar SMS: N'' @ [CHR 0xE3] @ ''o h'' @ [CHR 0xE1]
                              @ '' permiss'' @ [CHR 0xE3] @ ''o para enviar SMS para a regi''
                              @ [CHR 0xE3] @ ''o do n'' @ [CHR 0xFA] @ ''mero '' @ t @ ''.'',
                            [rq])
                         else
                           (''Falha ao enviar SMS para '' @ t @ ''. (''
                              @ or_else msg ''Erro desconhecido''
                              @ '')'', [rq]))))"

section \<open>getMalariaProbabilityJS and getZoneSolutionJS\<close>

text \<open>Both return a string on every path: the calls to the service sit inside
  \<^verbatim>\<open>try\<close>/\<^verbatim>\<open>catch\<close>, and a thrown error becomes the fallback text of the
  \<^verbatim>\<open>catch\<close> block.\<close>

definition getMalariaProbabilityJS :: "env \<Rightarrow> string \<Rightarrow> string" where
  "getMalariaProbabilityJS e symptomsDescription =
     (case ai e of
        None \<Rightarrow>
          ''Servi'' @ [CHR 0xE7] @ ''o de IA indispon'' @ [CHR 0xED]
            @ ''vel. Verifique a configura'' @ [CHR 0xE7, CHR 0xE3] @ ''o da API_KEY.''
      | Some generateContent \<Rightarrow>
          if symptomsDescription = [] \<or> trim_js symptomsDescription = [] then
            ''Nenhum sintoma fornecido para an'' @ [CHR 0xE1] @ ''lise.''
          else
            (let prompt =
                   ''Analise os sintomas para mal'' @ [CHR 0xE1] @ ''ria: '' @ [CHR 0x22]
                   @ symptomsDescription
                   @ [CHR 0x22] @ ''. FORNE'' @ [CHR 0xC7]
                   @ ''A OBRIGATORIAMENTE uma probabilidade em percentagem (0% a 100%) de ser mal''
                   @ [CHR 0xE1] @ ''ria. A resposta DEVE iniciar com a percentagem (ex: ''
                   @ [CHR 0x22] @ ''30%'' @ [CHR 0x22] @ ''). Ap'' @ [CHR 0xF3]
                   @ ''s a percentagem, adicione uma explica'' @ [CHR 0xE7, CHR 0xE3]
                   @ ''o MUITO BREVE (m'' @ [CHR 0xE1] @ ''ximo 45 caracteres para a explica''
                   @ [CHR 0xE7, CHR 0xE3] @ ''o, em portugu'' @ [CHR 0xEA] @ ''s). N''
                   @ [CHR 0xE3] @ ''o mencione outras doen'' @ [CHR 0xE7]
                   @ ''as. Se a certeza for baixa, use uma percentagem baixa. Exemplo 1: ''
                   @ [CHR 0x22] @ ''10% (Sintomas vagos.)'' @ [CHR 0x22] @ '' Exemplo 2: ''
                   @ [CHR 0x22] @ ''85% (Sintomas cl'' @ [CHR 0xE1] @ ''ssicos.)'' @ [CHR 0x22]
             in case generateContent
                       \<lparr>model = ''gemini-1.5-flash-latest'', contents = prompt,
                        temperature = 0.7, maxOutputTokens = 60\<rparr> of
                  Generated result_text \<Rightarrow>
                    or_else result_text
                      (''N'' @ [CHR 0xE3] @ ''o foi poss'' @ [CHR 0xED]
                         @ ''vel obter uma an'' @ [CHR 0xE1] @ ''lise dos sintomas.'')
                | GenerateFailed \<Rightarrow> ''Erro ao analisar sintomas. Tente mais tarde.''))"

definition getZoneSolutionJS :: "env \<Rightarrow> string \<Rightarrow> string" where
  "getZoneSolutionJS e problemDescription =
     (case ai e of
        None \<Rightarrow>
          ''Servi'' @ [CHR 0xE7] @ ''o de IA indispon'' @ [CHR 0xED]
            @ ''vel. Verifique a configura'' @ [CHR 0xE7, CHR 0xE3] @ ''o da API_KEY.''
      | Some generateContent \<Rightarrow>
          if problemDescription = [] \<or> trim_js problemDescription = [] then
            ''Nenhuma descri'' @ [CHR 0xE7, CHR 0xE3] @ ''o do problema fornecida.''
          else
            (let prompt =
                   ''Para o seguinte problema de zona em Angola: '' @ [CHR 0x22]
                   @ problemDescription
                   @ [CHR 0x22] @ '', forne'' @ [CHR 0xE7] @ ''a uma solu''
                   @ [CHR 0xE7, CHR 0xE3] @ ''o pr'' @ [CHR 0xE1]
                   @ ''tica e muito concisa em portugu'' @ [CHR 0xEA] @ ''s (m'' @ [CHR 0xE1]
                   @ ''ximo 150 caracteres). Exemplo: '' @ [CHR 0x27] @ ''Lixo acumulado''
                   @ [CHR 0x27] @ '' -> '' @ [CHR 0x27] @ ''Reporte '' @ [CHR 0xE0]
                   @ '' administra'' @ [CHR 0xE7, CHR 0xE3] @ ''o local para limpeza.''
                   @ [CHR 0x27]
             in case generateContent
                       \<lparr>model = ''gemini-1.5-flash-latest'', contents = prompt,
                        temperature = 0.5, maxOutputTokens = 80\<rparr> of
                  Generated result_text \<Rightarrow>
                    or_else result_text
                      (''N'' @ [CHR 0xE3] @ ''o foi poss'' @ [CHR 0xED]
                         @ ''vel obter uma sugest'' @ [CHR 0xE3] @ ''o.'')
                | GenerateFailed \<Rightarrow>
                    ''Erro ao obter sugest'' @ [CHR 0xE3] @ ''o. Tente mais tarde.''))"

section \<open>formatZonesForUSSD\<close>

text \<open>A zone as the API gives it: a \<^verbatim>\<open>location\<close> and a numeric
  \<^verbatim>\<open>riskLevel\<close>, either of which may be missing. \<^verbatim>\<open>zones\<close> itself may be
  \<^verbatim>\<open>null\<close> (\<open>None\<close>), and so may the filter.\<close>

record zone =
  location :: "string option"
  riskLevel :: "int option"

definition riskLevelStringToNumeric :: "string \<Rightarrow> int option" where
  "riskLevelStringToNumeric k =
     (if k = ''alto'' then Some 3
      else if k = ''m'' @ [CHR 0xE9] @ ''dio'' then Some 2
      else if k = ''baixo'' then Some 1
      else None)"

definition riskLevelNumericToString :: "int option \<Rightarrow> string option" where
  "riskLevelNumericToString k =
     (if k = Some 3 then Some ''Alto''
      else if k = Some 2 then Some (''M'' @ [CHR 0xE9] @ ''dio'')
      else if k = Some 1 then Some ''Baixo''
      else None)"

text \<open>\<^verbatim>\<open>riskLevelNumericToString[zone.riskLevel] || zone.riskLevel || 'N/D'\<close>,
  as the template literal prints it.\<close>

definition displayRisk :: "zone \<Rightarrow> string" where
  "displayRisk z =
     (case riskLevelNumericToString (riskLevel z) of
        Some label \<Rightarrow> label
      | None \<Rightarrow>
          (case riskLevel z of
             None \<Rightarrow> ''N/D''
           | Some n \<Rightarrow> if n = 0 then ''N/D'' else string_of_int n))"

text \<open>The line that one pass of the \<^verbatim>\<open>forEach\<close> callback appends.\<close>

definition zone_entry :: "nat \<times> zone \<Rightarrow> string" where
  "zone_entry p =
     string_of_nat (fst p + 1) @ ''. '' @ or_else (location (snd p)) ''Local Desconhecido''
     @ '' ('' @ displayRisk (snd p) @ '')'' @ [CHR 0x0A]"

definition zones_none_found :: "string option \<Rightarrow> string" where
  "zones_none_found riskLevelFilter =
     (let filterText = (case riskLevelFilter of
                          None \<Rightarrow> []
                        | Some f \<Rightarrow> if f = [] then [] else toLowerCase f @ '' '')
      in ''Nenhuma zona de risco '' @ filterText @ ''encontrada.'')"

definition zones_header :: "string option \<Rightarrow> string" where
  "zones_header riskLevelFilter =
     (case riskLevelFilter of
        None \<Rightarrow> ''Zonas de Risco (Todas):'' @ [CHR 0x0A]
      | Some f \<Rightarrow>
          if f = [] then ''Zonas de Risco (Todas):'' @ [CHR 0x0A]
          else ''Zonas de Risco '' @ f @ '':'' @ [CHR 0x0A])"

definition filteredZones_of :: "zone list \<Rightarrow> string option \<Rightarrow> zone list" where
  "filteredZones_of zones riskLevelFilter =
     (case riskLevelFilter of
        None \<Rightarrow> zones
      | Some f \<Rightarrow>
          if f = [] then zones
          else (case riskLevelStringToNumeric (toLowerCase f) of
                  Some numericEquivalent \<Rightarrow>
                    filter (\<lambda>z. riskLevel z = Some numericEquivalent) zones
                | None \<Rightarrow> []))"

definition formatZonesForUSSD :: "zone list option \<Rightarrow> string option \<Rightarrow> string" where
  "formatZonesForUSSD zones riskLevelFilter =
     (case zones of
        None \<Rightarrow> zones_none_found riskLevelFilter
      | Some zs \<Rightarrow>
          if length zs = 0 then zones_none_found riskLevelFilter
          else
            (let filteredZones = filteredZones_of zs riskLevelFilter
             in if length filteredZones = 0 then zones_none_found riskLevelFilter
                else
                  (let zonesToShow = take 5 filteredZones;
                       responseMessage =
                         fold (\<lambda>p msg. msg @ zone_entry p) (enumerate 0 zonesToShow)
                           (zones_header riskLevelFilter);
                       responseMessage =
                         (if length filteredZones > length zonesToShow then
                            responseMessage @ ''Mais ''
                            @ string_of_nat (length filteredZones - length zonesToShow)
                            @ '' zonas dispon'' @ [CHR 0xED] @ ''veis.''
                          else responseMessage)
                   in trim_js responseMessage)))"

section \<open>formatReportsForUSSD\<close>

text \<open>A report: every field may be missing; \<^verbatim>\<open>riskLevel\<close> is printed as it
  is, a number or a string.\<close>

datatype level = Num int | Str string

record report =
  title :: "string option"
  description :: "string option"
  report_riskLevel :: "level option"
  municipality :: "string option"

text \<open>\<^verbatim>\<open>report.riskLevel || 'N/D'\<close> inside the template literal.\<close>

definition report_risk_text :: "report \<Rightarrow> string" where
  "report_risk_text r =
     (case report_riskLevel r of
        None \<Rightarrow> ''N/D''
      | Some (Num n) \<Rightarrow> if n = 0 then ''N/D'' else string_of_int n
      | Some (Str s) \<Rightarrow> if s = [] then ''N/D'' else s)"

text \<open>Lines 213--214: the description that is shown.\<close>

definition shown_description :: "report \<Rightarrow> string" where
  "shown_description r =
     (let desc = or_else (description r) (''Sem descri'' @ [CHR 0xE7, CHR 0xE3] @ ''o.'')
      in if length desc > 70 then take 67 desc @ ''...'' else desc)"

definition report_entry :: "report \<Rightarrow> string" where
  "report_entry r =
     or_else (title r) ''N/A'' @ '': '' @ shown_description r
     @ '' (Risco: '' @ report_risk_text r @ '')'' @ [CHR 0x0A]"

text \<open>The test of lines 202 and 205: a filter is given and it is neither
  \<^verbatim>\<open>outro\<close> nor \<^verbatim>\<open>todos\<close>.\<close>

definition specific_municipality :: "string option \<Rightarrow> bool" where
  "specific_municipality municipalityFilter =
     (case municipalityFilter of
        None \<Rightarrow> False
      | Some m \<Rightarrow> m \<noteq> [] \<and> toLowerCase m \<noteq> ''outro'' \<and> toLowerCase m \<noteq> ''todos'')"

definition filteredReports_of :: "report list \<Rightarrow> string option \<Rightarrow> report list" where
  "filteredReports_of reports municipalityFilter =
     (if specific_municipality municipalityFilter then
        filter (\<lambda>r. case municipality r of
                      None \<Rightarrow> False
                    | Some x \<Rightarrow>
                        x \<noteq> [] \<and> toLowerCase x = toLowerCase (or_else municipalityFilter []))
          reports
      else reports)"

definition reports_header :: "string option \<Rightarrow> string" where
  "reports_header municipalityFilter =
     ''Reportagens ''
     @ (case municipalityFilter of
          None \<Rightarrow> ''Geral''
        | Some m \<Rightarrow> if m \<noteq> [] \<and> toLowerCase m \<noteq> ''todos'' then m else ''Geral'')
     @ '':'' @ [CHR 0x0A]"

definition formatReportsForUSSD :: "report list option \<Rightarrow> string option \<Rightarrow> string" where
  "formatReportsForUSSD reports municipalityFilter =
     (case reports of
        None \<Rightarrow>
          ''Nenhuma reportagem ''
          @ (if truthy municipalityFilter then
               ''para '' @ or_else municipalityFilter [] @ '' '' else [])
          @ ''encontrada.''
      | Some rs \<Rightarrow>
          if length rs = 0 then
            ''Nenhuma reportagem ''
            @ (if truthy municipalityFilter then
                 ''para '' @ or_else municipalityFilter [] @ '' '' else [])
            @ ''encontrada.''
          else
            (let filteredReports = filteredReports_of rs municipalityFilter
             in if length filteredReports = 0 \<and> specific_municipality municipalityFilter then
                  ''Nenhuma reportagem para '' @ or_else municipalityFilter []
                  @ '' encontrada.''
                else
                  (let reportsToShow = take 1 filteredReports;
                       message =
                         fold (\<lambda>r msg. msg @ report_entry r) reportsToShow
                           (reports_header municipalityFilter);
                       message =
                         (if length filteredReports > length reportsToShow then
                            message @ ''Mais ''
                            @ string_of_nat (length filteredReports - length reportsToShow)
                            @ '' reportagens.''
                          else message)
                   in trim_js message)))"

section \<open>The session store and the request\<close>

text \<open>
  \<^verbatim>\<open>const sessions = {}\<close> is a plain object used as a dictionary from the
  session identifier to an object \<^verbatim>\<open>{ flow, data }\<close>. A plain object has
  properties of its own and a prototype, and the handler reads, writes and
  deletes with \<^verbatim>\<open>sessions[sessionId]\<close>, so both are part of the state:
  \<open>own\<close> holds the properties the object has itself, \<open>proto\<close> holds the
  session that has been installed as its prototype (\<open>None\<close> while the
  prototype is still \<^verbatim>\<open>Object.prototype\<close>). The field \<^verbatim>\<open>data\<close> only ever
  holds the empty object.
\<close>

record session =
  flow :: string
  data :: "(string \<times> string) list"

record store =
  own :: "string \<rightharpoonup> session"
  proto :: "session option"

text \<open>
  \<^verbatim>\<open>sessions[k]\<close> read. The name \<^verbatim>\<open>__proto__\<close> is the accessor inherited
  from \<^verbatim>\<open>Object.prototype\<close>: reading it gives the prototype. Any other name
  gives the property of its own; where there is none the value is inherited,
  a function of \<^verbatim>\<open>Object.prototype\<close> or the string \<^verbatim>\<open>flow\<close> or the empty
  object \<^verbatim>\<open>data\<close> of an installed prototype, and none of these passes the
  test of line 241, so it reads as no session, like \<^verbatim>\<open>undefined\<close>.
\<close>

definition sessions_get :: "store \<Rightarrow> string \<Rightarrow> session option" where
  "sessions_get st k = (if k = ''__proto__'' then proto st else own st k)"

text \<open>\<^verbatim>\<open>sessions[k] = v\<close>: for \<^verbatim>\<open>__proto__\<close> the inherited setter makes the
  object \<open>v\<close> the prototype; any other name becomes a property of its own.
  Assigning to a field of \<^verbatim>\<open>sessions[k]\<close> changes the object that the read
  returns, which is the same as storing the changed object under \<open>k\<close>.\<close>

definition sessions_set :: "store \<Rightarrow> string \<Rightarrow> session \<Rightarrow> store" where
  "sessions_set st k v =
     (if k = ''__proto__'' then st\<lparr>proto := Some v\<rparr>
      else st\<lparr>own := (own st)(k \<mapsto> v)\<rparr>)"

text \<open>\<^verbatim>\<open>delete sessions[k]\<close> removes a property of its own. The object has
  no property of its own named \<^verbatim>\<open>__proto__\<close>, so for that name nothing
  changes and the prototype stays.\<close>

definition sessions_delete :: "store \<Rightarrow> string \<Rightarrow> store" where
  "sessions_delete st k =
     (if k = ''__proto__'' then st else st\<lparr>own := (own st)(k := None)\<rparr>)"

record request =
  sessionId :: string
  serviceCode :: string
  phoneNumber :: "string option"
  text_field :: "string option"

text \<open>What one call of the handler leaves behind: the body given to
  \<^verbatim>\<open>res.send\<close>, the session store, and the requests that reached the SMS
  provider.\<close>

record outcome =
  response :: string
  store_after :: store
  sms_calls :: "message_request list"

definition mainMenu :: string where
  "mainMenu =
     ''CON Bem-vindo ao USSD Service do mapaZZZ'' @ [CHR 0x0A] @ ''1. Zonas de risco''
     @ [CHR 0x0A] @ ''2. Reportagens'' @ [CHR 0x0A] @ ''3. Epaludismo (Mal'' @ [CHR 0xE1]
     @ ''ria)'' @ [CHR 0x0A] @ ''4. Solu'' @ [CHR 0xE7, CHR 0xF5] @ ''es de Zonas''
     @ [CHR 0x0A] @ ''5. Dicas de Sa'' @ [CHR 0xFA] @ ''de'' @ [CHR 0x0A]
     @ ''6. Contactos de Emerg'' @ [CHR 0xEA] @ ''ncia''"

section \<open>The branches of the POST /ussd handler\<close>

text \<open>Flow \<^verbatim>\<open>menu\<close> with a non-empty token (lines 261--284). \<open>s\<close> is the
  object \<^verbatim>\<open>sessions[sessionId]\<close>.\<close>

definition menu_branch :: "store \<Rightarrow> string \<Rightarrow> session \<Rightarrow> string \<Rightarrow> outcome" where
  "menu_branch st sid s lastInput =
     (let s1 = s\<lparr>data := []\<rparr>
      in if lastInput = ''1'' then
           \<lparr>response = ''CON Escolha o n'' @ [CHR 0xED] @ ''vel de risco:'' @ [CHR 0x0A]
              @ ''1. Alto'' @ [CHR 0x0A] @ ''2. M'' @ [CHR 0xE9] @ ''dio'' @ [CHR 0x0A]
              @ ''3. Baixo'' @ [CHR 0x0A] @ ''4. Todas'' @ [CHR 0x0A] @ ''5. Menu Principal'',
            store_after = sessions_set st sid (s1\<lparr>flow := ''zones_risk_level_selection''\<rparr>),
            sms_calls = []\<rparr>
         else if lastInput = ''2'' then
           \<lparr>response = ''CON Munic'' @ [CHR 0xED] @ ''pio para reportagens:'' @ [CHR 0x0A]
              @ ''1. Belas'' @ [CHR 0x0A] @ ''2. Zango'' @ [CHR 0x0A] @ ''3. Viana''
              @ [CHR 0x0A] @ ''4. Outro (Geral)'' @ [CHR 0x0A] @ ''5. Todos (Geral)''
              @ [CHR 0x0A] @ ''6. Menu Principal'',
            store_after = sessions_set st sid (s1\<lparr>flow := ''reports_municipality_selection''\<rparr>),
            sms_calls = []\<rparr>
         else if lastInput = ''3'' then
           \<lparr>response = ''CON Descreva os seus sintomas (ex: febre, dor de cabe''
              @ [CHR 0xE7] @ ''a):'',
            store_after = sessions_set st sid (s1\<lparr>flow := ''symptoms_input''\<rparr>),
            sms_calls = []\<rparr>
         else if lastInput = ''4'' then
           \<lparr>response = ''CON Descreva o problema na sua zona:'',
            store_after = sessions_set st sid (s1\<lparr>flow := ''zone_problem_input''\<rparr>),
            sms_calls = []\<rparr>
         else if lastInput = ''5'' then
           \<lparr>response = ''CON Dicas de Sa'' @ [CHR 0xFA] @ ''de:'' @ [CHR 0x0A]
              @ ''1. Preven'' @ [CHR 0xE7, CHR 0xE3] @ ''o da Mal'' @ [CHR 0xE1] @ ''ria''
              @ [CHR 0x0A] @ ''2. Saneamento B'' @ [CHR 0xE1] @ ''sico'' @ [CHR 0x0A]
              @ ''3. Primeiros Socorros (B'' @ [CHR 0xE1] @ ''sico)'' @ [CHR 0x0A]
              @ ''4. Menu Principal'',
            store_after = sessions_set st sid (s1\<lparr>flow := ''health_tips_menu''\<rparr>),
            sms_calls = []\<rparr>
         else if lastInput = ''6'' then
           \<lparr>response = ''END Contactos '' @ [CHR 0xDA] @ ''teis:'' @ [CHR 0x0A]
              @ ''Policia: 113'' @ [CHR 0x0A] @ ''Bombeiros: 115'' @ [CHR 0x0A] @ ''Ambul''
              @ [CHR 0xE2] @ ''ncia (INEMA): 112'' @ [CHR 0x0A] @ ''Prote''
              @ [CHR 0xE7, CHR 0xE3] @ ''o Civil: 117'' @ [CHR 0x0A] @ ''Viol'' @ [CHR 0xEA]
              @ ''ncia Dom'' @ [CHR 0xE9] @ ''stica: 146'',
            store_after = sessions_delete st sid,
            sms_calls = []\<rparr>
         else
           \<lparr>response = ''END Sele'' @ [CHR 0xE7, CHR 0xE3] @ ''o inv'' @ [CHR 0xE1]
              @ ''lida.'',
            store_after = sessions_delete st sid,
            sms_calls = []\<rparr>)"

text \<open>The two simulated lists and the \<^verbatim>\<open>forEach\<close> loop that writes them out
  (lines 302--316 and 344--358). An element is a pair: the \<^verbatim>\<open>location\<close> or
  \<^verbatim>\<open>title\<close>, and the \<^verbatim>\<open>risk\<close>. The loop carries the USSD text and the
  SMS text.\<close>

definition sampleZones :: "(string \<times> string) list" where
  "sampleZones =
     [(''Cl'' @ [CHR 0xED] @ ''nica CSE'', ''Alto''),
      (''ISPTC Talatona'', ''M'' @ [CHR 0xE9] @ ''dio''),
      (''Mercado Kifica'', ''Baixo'')]"

definition sampleReports :: "(string \<times> string) list" where
  "sampleReports =
     [(''Falta de '' @ [CHR 0xC1] @ ''gua'', ''Alto''),
      (''Lixo na Via'', ''M'' @ [CHR 0xE9] @ ''dio''),
      (''Poste Ca'' @ [CHR 0xED] @ ''do'', ''Alto'')]"

definition sample_item :: "nat \<Rightarrow> string \<times> string \<Rightarrow> string" where
  "sample_item index x =
     string_of_nat (index + 1) @ ''. '' @ fst x @ '' ('' @ snd x @ '')''"

definition sample_messages ::
  "(string \<times> string) list \<Rightarrow> string \<times> string \<Rightarrow> string \<times> string" where
  "sample_messages samples start =
     fold (\<lambda>(index, x) (ussdMessage, smsMessage).
             (let item = sample_item index x
              in (ussdMessage @ item @ [CHR 0x0A],
                  smsMessage @ item
                    @ (if int index = int (length samples) - 1 then [] else [CHR 0x0A]))))
          (enumerate 0 samples) start"

text \<open>Flow \<^verbatim>\<open>zones_risk_level_selection\<close> (lines 285--324). The variable
  \<^verbatim>\<open>selectedRiskLevel\<close> is assigned and not read again.\<close>

definition zones_branch ::
  "env \<Rightarrow> store \<Rightarrow> string \<Rightarrow> string option \<Rightarrow> string \<Rightarrow> outcome" where
  "zones_branch e st sid phone lastInput =
     (if lastInput = ''5'' then
        \<lparr>response = mainMenu,
         store_after = sessions_set st sid \<lparr>flow = ''menu'', data = []\<rparr>,
         sms_calls = []\<rparr>
      else
        (let (selectedRiskLevel, response1, st1) =
               (if lastInput = ''1'' then (Some ''Alto'', [], st)
                else if lastInput = ''2'' then (Some (''M'' @ [CHR 0xE9] @ ''dio''), [], st)
                else if lastInput = ''3'' then (Some ''Baixo'', [], st)
                else if lastInput = ''4'' then (None, [], st)
                else (Some [],
                      ''END Sele'' @ [CHR 0xE7, CHR 0xE3] @ ''o inv'' @ [CHR 0xE1]
                        @ ''lida para Zonas.'',
                      sessions_delete st sid))
         in if response1 = [] then
              (let (ussdZoneMessage0, smsZoneMessage) =
                     sample_messages sampleZones
                       (''Zonas (Simulado):'' @ [CHR 0x0A],
                        ''Zonas Risco (MapaZZZ):'' @ [CHR 0x0A]);
                   ussdZoneMessage = trim_js ussdZoneMessage0;
                   (smsConfirmation, calls) = sendTwilioSms e phone smsZoneMessage
               in \<lparr>response = ''END '' @ ussdZoneMessage @ [CHR 0x0A] @ smsConfirmation,
                   store_after = sessions_delete st1 sid,
                   sms_calls = calls\<rparr>)
            else
              \<lparr>response = response1, store_after = st1, sms_calls = []\<rparr>))"

text \<open>Flow \<^verbatim>\<open>reports_municipality_selection\<close> (lines 325--366).\<close>

definition reports_branch ::
  "env \<Rightarrow> store \<Rightarrow> string \<Rightarrow> string option \<Rightarrow> string \<Rightarrow> outcome" where
  "reports_branch e st sid phone lastInput =
     (if lastInput = ''6'' then
        \<lparr>response = mainMenu,
         store_after = sessions_set st sid \<lparr>flow = ''menu'', data = []\<rparr>,
         sms_calls = []\<rparr>
      else
        (let (selectedMunicipality, response1, st1) =
               (if lastInput = ''1'' then (''Belas'', [], st)
                else if lastInput = ''2'' then (''Zango'', [], st)
                else if lastInput = ''3'' then (''Viana'', [], st)
                else if lastInput = ''4'' then (''Outro'', [], st)
                else if lastInput = ''5'' then (''Todos'', [], st)
                else ([],
                      ''END Sele'' @ [CHR 0xE7, CHR 0xE3] @ ''o inv'' @ [CHR 0xE1]
                        @ ''lida para Reportagens.'',
                      sessions_delete st sid))
         in if response1 = [] then
              (let (ussdReportMessage0, smsReportMessage) =
                     sample_messages sampleReports
                       (''Reportagens (Simulado):'' @ [CHR 0x0A],
                        ''Reportagens (MapaZZZ):'' @ [CHR 0x0A]);
                   ussdReportMessage = trim_js ussdReportMessage0;
                   (smsConfirmation, calls) = sendTwilioSms e phone smsReportMessage
               in \<lparr>response = ''END '' @ ussdReportMessage @ [CHR 0x0A] @ smsConfirmation,
                   store_after = sessions_delete st1 sid,
                   sms_calls = calls\<rparr>)
            else
              \<lparr>response = response1, store_after = st1, sms_calls = []\<rparr>))"

text \<open>Flow \<^verbatim>\<open>symptoms_input\<close> (lines 367--387).\<close>

definition symptoms_branch ::
  "env \<Rightarrow> store \<Rightarrow> string \<Rightarrow> string option \<Rightarrow> string \<Rightarrow> outcome" where
  "symptoms_branch e st sid phone symptoms =
     (if symptoms = [] \<or> trim_js symptoms = [] then
        \<lparr>response = ''END Por favor, forne'' @ [CHR 0xE7] @ ''a uma descri''
           @ [CHR 0xE7, CHR 0xE3] @ ''o dos sintomas. Tente novamente.'',
         store_after = sessions_delete st sid,
         sms_calls = []\<rparr>
      else
        (let analysisResult = getMalariaProbabilityJS e symptoms
         in if includes_js analysisResult (''indispon'' @ [CHR 0xED] @ ''vel'')
               \<or> includes_js analysisResult ''Erro ao analisar''
               \<or> includes_js analysisResult ''Nenhum sintoma fornecido'' then
              \<lparr>response = ''END '' @ analysisResult,
               store_after = sessions_delete st sid,
               sms_calls = []\<rparr>
            else
              (let smsBody = ''Resultado da sua an'' @ [CHR 0xE1]
                     @ ''lise de sintomas (USSD MapaZZZ): '' @ analysisResult;
                   (smsSendConfirmation, calls) = sendTwilioSms e phone smsBody
               in \<lparr>response = ''END An'' @ [CHR 0xE1] @ ''lise: '' @ analysisResult
                      @ '' '' @ smsSendConfirmation,
                   store_after = sessions_delete st sid,
                   sms_calls = calls\<rparr>)))"

text \<open>Flow \<^verbatim>\<open>zone_problem_input\<close> (lines 388--407).\<close>

definition zone_problem_branch ::
  "env \<Rightarrow> store \<Rightarrow> string \<Rightarrow> string option \<Rightarrow> string \<Rightarrow> outcome" where
  "zone_problem_branch e st sid phone problemDescription =
     (if problemDescription = [] \<or> trim_js problemDescription = [] then
        \<lparr>response = ''END Por favor, forne'' @ [CHR 0xE7] @ ''a uma descri''
           @ [CHR 0xE7, CHR 0xE3] @ ''o do problema. Tente novamente.'',
         store_after = sessions_delete st sid,
         sms_calls = []\<rparr>
      else
        (let solutionResult = getZoneSolutionJS e problemDescription
         in if includes_js solutionResult (''indispon'' @ [CHR 0xED] @ ''vel'')
               \<or> includes_js solutionResult ''Erro ao obter''
               \<or> includes_js solutionResult
                    (''Nenhuma descri'' @ [CHR 0xE7, CHR 0xE3] @ ''o do problema'') then
              \<lparr>response = ''END '' @ solutionResult,
               store_after = sessions_delete st sid,
               sms_calls = []\<rparr>
            else
              (let smsBody = ''Sugest'' @ [CHR 0xE3]
                     @ ''o para o problema na sua zona (USSD MapaZZZ): '' @ solutionResult;
                   (smsSendConfirmation, calls) = sendTwilioSms e phone smsBody
               in \<lparr>response = ''END Sugest'' @ [CHR 0xE3] @ ''o: '' @ solutionResult
                      @ '' '' @ smsSendConfirmation,
                   store_after = sessions_delete st sid,
                   sms_calls = calls\<rparr>)))"

text \<open>Flow \<^verbatim>\<open>health_tips_menu\<close> (lines 408--434).\<close>

definition health_tips_branch ::
  "env \<Rightarrow> store \<Rightarrow> string \<Rightarrow> string option \<Rightarrow> string \<Rightarrow> outcome" where
  "health_tips_branch e st sid phone lastInput =
     (let (tipText, response1, st1) =
            (if lastInput = ''1'' then
               (''Mal'' @ [CHR 0xE1] @ ''ria: Use mosquiteiro, elimine '' @ [CHR 0xE1]
                  @ ''gua parada, procure m'' @ [CHR 0xE9]
                  @ ''dico aos primeiros sintomas.'', [], st)
             else if lastInput = ''2'' then
               (''Saneamento: Mantenha quintal limpo, lixo no lugar certo, lave as m''
                  @ [CHR 0xE3] @ ''os. Sa'' @ [CHR 0xFA] @ ''de!'', [], st)
             else if lastInput = ''3'' then
               (''1os Socorros: Queimadura leve? '' @ [CHR 0xC1]
                  @ ''gua fria. Cortes? Limpe e cubra. Grave? Ajuda m'' @ [CHR 0xE9]
                  @ ''dica!'', [], st)
             else if lastInput = ''4'' then
               ([], mainMenu, sessions_set st sid \<lparr>flow = ''menu'', data = []\<rparr>)
             else
               ([],
                ''END Sele'' @ [CHR 0xE7, CHR 0xE3] @ ''o inv'' @ [CHR 0xE1] @ ''lida.'',
                sessions_delete st sid))
      in if tipText \<noteq> [] \<and> response1 = [] then
           (let smsBody = ''Dica de Sa'' @ [CHR 0xFA] @ ''de (USSD MapaZZZ): '' @ tipText;
                (smsConfirmation, calls) = sendTwilioSms e phone smsBody
            in \<lparr>response = ''END '' @ tipText @ '' '' @ smsConfirmation,
                store_after = sessions_delete st1 sid,
                sms_calls = calls\<rparr>)
         else
           \<lparr>response = response1, store_after = st1, sms_calls = []\<rparr>)"

section \<open>The POST /ussd handler\<close>

text \<open>Lines 228--443. A session that is missing, or whose \<^verbatim>\<open>flow\<close> is
  falsy, is replaced by a fresh one in flow \<^verbatim>\<open>initial\<close>; the dispatch then
  follows the chain of \<^verbatim>\<open>if\<close>/\<^verbatim>\<open>else if\<close> in the order of the source.\<close>

definition load_session :: "store \<Rightarrow> string \<Rightarrow> store \<times> session" where
  "load_session st sid =
     (case sessions_get st sid of
        None \<Rightarrow>
          (sessions_set st sid \<lparr>flow = ''initial'', data = []\<rparr>, \<lparr>flow = ''initial'', data = []\<rparr>)
      | Some s \<Rightarrow>
          if flow s = [] then
            (sessions_set st sid \<lparr>flow = ''initial'', data = []\<rparr>, \<lparr>flow = ''initial'', data = []\<rparr>)
          else (st, s))"

definition ussd_handler :: "env \<Rightarrow> store \<Rightarrow> request \<Rightarrow> outcome" where
  "ussd_handler e sessions req =
     (let sid = sessionId req;
          phone = phoneNumber req;
          (st, s) = load_session sessions sid;
          currentFlow = flow s;
          lastInput = lastInput_of (text_field req)
      in if lastInput = [] \<and> currentFlow \<noteq> ''initial'' \<and> currentFlow \<noteq> ''menu'' then
           \<lparr>response = mainMenu,
            store_after = sessions_set st sid \<lparr>flow = ''menu'', data = []\<rparr>,
            sms_calls = []\<rparr>
         else if currentFlow = ''initial'' \<or> (currentFlow = ''menu'' \<and> lastInput = []) then
           \<lparr>response = mainMenu,
            store_after = sessions_set st sid \<lparr>flow = ''menu'', data = []\<rparr>,
            sms_calls = []\<rparr>
         else if currentFlow = ''menu'' then menu_branch st sid s lastInput
         else if currentFlow = ''zones_risk_level_selection'' then
           zones_branch e st sid phone lastInput
         else if currentFlow = ''reports_municipality_selection'' then
           reports_branch e st sid phone lastInput
         else if currentFlow = ''symptoms_input'' then
           symptoms_branch e st sid phone lastInput
         else if currentFlow = ''zone_problem_input'' then
           zone_problem_branch e st sid phone lastInput
         else if currentFlow = ''health_tips_menu'' then
           health_tips_branch e st sid phone lastInput
         else
           \<lparr>response = mainMenu,
            store_after = sessions_set st sid \<lparr>flow = ''menu'', data = []\<rparr>,
            sms_calls = []\<rparr>)"

section \<open>A sample configuration\<close>

text \<open>Concrete values at which the theorems below are instantiated: an SMS
  provider that accepts every message, a text service that answers every
  prompt with the same sentence, a store holding one session, and a request
  for that session.\<close>

definition accepting_provider :: "message_request \<Rightarrow> create_reply" where
  "accepting_provider rq = Created ''SM0001''"

definition answering_ai :: "generate_request \<Rightarrow> generate_reply" where
  "answering_ai rq = Generated (Some (''85% (Sintomas cl'' @ [CHR 0xE1] @ ''ssicos.)''))"

definition sample_env :: env where
  "sample_env = \<lparr>ai = None, twilioClient = Some accepting_provider,
                  TWILIO_PHONE_NUMBER = ''+15005550006''\<rparr>"

definition sample_store :: "string \<Rightarrow> store" where
  "sample_store flow_tag =
     \<lparr>own = [''ATUid_1'' \<mapsto> \<lparr>flow = flow_tag, data = []\<rparr>], proto = None\<rparr>"

text \<open>The store of a process that has just started, and a request whose
  session identifier is \<^verbatim>\<open>__proto__\<close>.\<close>

definition fresh_store :: store where
  "fresh_store = \<lparr>own = Map.empty, proto = None\<rparr>"

definition proto_request :: "string \<Rightarrow> request" where
  "proto_request t = \<lparr>sessionId = ''__proto__'', serviceCode = ''*384#'',
                       phoneNumber = Some ''+244923456789'', text_field = Some t\<rparr>"

definition sample_request :: "string \<Rightarrow> request" where
  "sample_request t = \<lparr>sessionId = ''ATUid_1'', serviceCode = ''*384#'',
                        phoneNumber = Some ''+244923456789'', text_field = Some t\<rparr>"

definition long_report :: "nat \<Rightarrow> report" where
  "long_report n = \<lparr>title = Some ''Lixo'', description = Some (replicate n (CHR ''a'')),
                     report_riskLevel = Some (Str ''Alto''), municipality = Some ''Viana''\<rparr>"

section \<open>Facts about the string functions\<close>

lemma split_js_nonempty: "split_js c s \<noteq> []"
  by (induction s) (auto split: list.splits)

lemma pop_js_last: "xs \<noteq> [] \<Longrightarrow> pop_js xs = Some (last xs)"
  by (induction xs rule: pop_js.induct) auto

lemma includes_single: "includes_js s [c] = (c \<in> set s)"
  by (induction s) auto

lemma split_js_no_sep: "c \<notin> set s \<Longrightarrow> split_js c s = [s]"
  by (induction s) auto

lemma split_js_single: "split_js c s = [y] \<Longrightarrow> c \<notin> set s"
  by (induction s arbitrary: y) (auto simp: split_js_nonempty split: if_splits list.splits)

lemma last_split_js_free: "c \<notin> set (last (split_js c s))"
proof (induction s)
  case Nil
  show ?case by simp
next
  case (Cons x xs)
  show ?case
  proof (cases "split_js c xs")
    case Nil
    with split_js_nonempty show ?thesis by blast
  next
    case (Cons y ys)
    with Cons.IH show ?thesis by (cases ys) auto
  qed
qed

lemma last_split_js_suffix:
  "c \<in> set s \<Longrightarrow> \<exists>pre. s = pre @ c # last (split_js c s)"
proof (induction s)
  case Nil
  then show ?case by simp
next
  case (Cons x xs)
  show ?case
  proof (cases "c \<in> set xs")
    case True
    with Cons.IH obtain pre where pre: "xs = pre @ c # last (split_js c xs)"
      by blast
    obtain y ys where sp: "split_js c xs = y # ys"
      using split_js_nonempty by (cases "split_js c xs") auto
    from True have "ys \<noteq> []"
      using sp split_js_single [of c xs y] by auto
    then have "last (split_js c (x # xs)) = last (split_js c xs)"
      using sp by auto
    with pre have "x # xs = (x # pre) @ c # last (split_js c (x # xs))"
      by simp
    then show ?thesis by blast
  next
    case False
    with Cons.prems have xc: "x = c" by simp
    from False have "split_js c xs = [xs]" by (rule split_js_no_sep)
    with xc have "x # xs = [] @ c # last (split_js c (x # xs))" by simp
    then show ?thesis by blast
  qed
qed

section \<open>Facts about the handler's branches\<close>

lemma mainMenu_CON: "take 3 mainMenu = ''CON''"
  by (simp add: mainMenu_def)

lemma load_session_stored:
  "sessions_get sessions sid = Some s \<Longrightarrow> flow s \<noteq> [] \<Longrightarrow>
   load_session sessions sid = (sessions, s)"
  by (simp add: load_session_def)

lemma sessions_set_twice: "sessions_set (sessions_set st k a) k b = sessions_set st k b"
  by (simp add: sessions_set_def)

lemma sessions_get_set: "sessions_get (sessions_set st k v) k = Some v"
  by (simp add: sessions_get_def sessions_set_def)

lemma sessions_get_delete:
  "k \<noteq> ''__proto__'' \<Longrightarrow> sessions_get (sessions_delete st k) k = None"
  by (simp add: sessions_get_def sessions_delete_def)

lemma menu_branch_END:
  "take 3 (response (menu_branch st sid s tok)) = ''END'' \<Longrightarrow>
   store_after (menu_branch st sid s tok) = sessions_delete st sid"
  by (simp add: menu_branch_def Let_def split: if_splits)

lemma zones_branch_END:
  "take 3 (response (zones_branch e st sid phone tok)) = ''END'' \<Longrightarrow>
   store_after (zones_branch e st sid phone tok) = sessions_delete st sid"
  by (simp add: zones_branch_def mainMenu_CON Let_def split: if_splits prod.splits)

lemma reports_branch_END:
  "take 3 (response (reports_branch e st sid phone tok)) = ''END'' \<Longrightarrow>
   store_after (reports_branch e st sid phone tok) = sessions_delete st sid"
  by (simp add: reports_branch_def mainMenu_CON Let_def split: if_splits prod.splits)

lemma symptoms_branch_deletes:
  "store_after (symptoms_branch e st sid phone tok) = sessions_delete st sid"
  by (simp add: symptoms_branch_def Let_def split: if_splits prod.splits)

lemma zone_problem_branch_deletes:
  "store_after (zone_problem_branch e st sid phone tok) = sessions_delete st sid"
  by (simp add: zone_problem_branch_def Let_def split: if_splits prod.splits)

lemma health_tips_branch_END:
  "take 3 (response (health_tips_branch e st sid phone tok)) = ''END'' \<Longrightarrow>
   store_after (health_tips_branch e st sid phone tok) = sessions_delete st sid"
  by (simp add: health_tips_branch_def mainMenu_CON Let_def split: if_splits prod.splits)

lemma end_response_store:
  "take 3 (response (ussd_handler e sessions req)) = ''END'' \<Longrightarrow>
   store_after (ussd_handler e sessions req) =
     sessions_delete (fst (load_session sessions (sessionId req))) (sessionId req)"
  by (auto simp add: ussd_handler_def Let_def mainMenu_CON menu_branch_END zones_branch_END
      reports_branch_END symptoms_branch_deletes zone_problem_branch_deletes
      health_tips_branch_END
      split: if_splits prod.splits)

lemma end_response_deletes_ordinary_session:
  "sessionId req \<noteq> ''__proto__'' \<Longrightarrow>
   take 3 (response (ussd_handler e sessions req)) = ''END'' \<Longrightarrow>
   sessions_get (store_after (ussd_handler e sessions req)) (sessionId req) = None"
  by (simp add: end_response_store sessions_get_delete)

lemma string_of_digit: "n < 10 \<Longrightarrow> string_of_nat n = [digit_char n]"
  by (simp add: string_of_nat.simps)

lemma zones_sample_messages:
  "sample_messages sampleZones
     (''Zonas (Simulado):'' @ [CHR 0x0A], ''Zonas Risco (MapaZZZ):'' @ [CHR 0x0A]) =
   (''Zonas (Simulado):'' @ [CHR 0x0A] @ ''1. Cl'' @ [CHR 0xED] @ ''nica CSE (Alto)''
      @ [CHR 0x0A] @ ''2. ISPTC Talatona (M'' @ [CHR 0xE9] @ ''dio)'' @ [CHR 0x0A]
      @ ''3. Mercado Kifica (Baixo)'' @ [CHR 0x0A],
    ''Zonas Risco (MapaZZZ):'' @ [CHR 0x0A] @ ''1. Cl'' @ [CHR 0xED] @ ''nica CSE (Alto)''
      @ [CHR 0x0A] @ ''2. ISPTC Talatona (M'' @ [CHR 0xE9] @ ''dio)'' @ [CHR 0x0A]
      @ ''3. Mercado Kifica (Baixo)'')"
  by (simp add: sample_messages_def sampleZones_def sample_item_def string_of_digit
      digit_char_def)

lemma zones_ussd_trimmed:
  "trim_js (''Zonas (Simulado):'' @ [CHR 0x0A] @ ''1. Cl'' @ [CHR 0xED] @ ''nica CSE (Alto)''
      @ [CHR 0x0A] @ ''2. ISPTC Talatona (M'' @ [CHR 0xE9] @ ''dio)'' @ [CHR 0x0A]
      @ ''3. Mercado Kifica (Baixo)'' @ [CHR 0x0A]) =
   ''Zonas (Simulado):'' @ [CHR 0x0A] @ ''1. Cl'' @ [CHR 0xED] @ ''nica CSE (Alto)''
      @ [CHR 0x0A] @ ''2. ISPTC Talatona (M'' @ [CHR 0xE9] @ ''dio)'' @ [CHR 0x0A]
      @ ''3. Mercado Kifica (Baixo)''"
  by (simp add: trim_js_def is_space_js_def)

lemma zones_branch_selected:
  assumes "tok \<in> {''1'', ''2'', ''3'', ''4''}"
  shows "zones_branch e st sid phone tok =
     \<lparr>response = ''END Zonas (Simulado):'' @ [CHR 0x0A] @ ''1. Cl'' @ [CHR 0xED]
        @ ''nica CSE (Alto)'' @ [CHR 0x0A] @ ''2. ISPTC Talatona (M'' @ [CHR 0xE9] @ ''dio)''
        @ [CHR 0x0A] @ ''3. Mercado Kifica (Baixo)'' @ [CHR 0x0A]
        @ fst (sendTwilioSms e phone
            (''Zonas Risco (MapaZZZ):'' @ [CHR 0x0A] @ ''1. Cl'' @ [CHR 0xED]
             @ ''nica CSE (Alto)'' @ [CHR 0x0A] @ ''2. ISPTC Talatona (M'' @ [CHR 0xE9]
             @ ''dio)'' @ [CHR 0x0A] @ ''3. Mercado Kifica (Baixo)'')),
      store_after = sessions_delete st sid,
      sms_calls = snd (sendTwilioSms e phone
            (''Zonas Risco (MapaZZZ):'' @ [CHR 0x0A] @ ''1. Cl'' @ [CHR 0xED]
             @ ''nica CSE (Alto)'' @ [CHR 0x0A] @ ''2. ISPTC Talatona (M'' @ [CHR 0xE9]
             @ ''dio)'' @ [CHR 0x0A] @ ''3. Mercado Kifica (Baixo)''))\<rparr>"
proof -
  have m: "sample_messages sampleZones
     (''Zonas (Simulado):'' @ [CHR 0x0A], ''Zonas Risco (MapaZZZ):'' @ [CHR 0x0A]) =
   (''Zonas (Simulado):'' @ [CHR 0x0A] @ ''1. Cl'' @ [CHR 0xED] @ ''nica CSE (Alto)''
      @ [CHR 0x0A] @ ''2. ISPTC Talatona (M'' @ [CHR 0xE9] @ ''dio)'' @ [CHR 0x0A]
      @ ''3. Mercado Kifica (Baixo)'' @ [CHR 0x0A],
    ''Zonas Risco (MapaZZZ):'' @ [CHR 0x0A] @ ''1. Cl'' @ [CHR 0xED] @ ''nica CSE (Alto)''
      @ [CHR 0x0A] @ ''2. ISPTC Talatona (M'' @ [CHR 0xE9] @ ''dio)'' @ [CHR 0x0A]
      @ ''3. Mercado Kifica (Baixo)'')" by (rule zones_sample_messages)
  from assms show ?thesis
    unfolding zones_branch_def m
    by (auto simp add: Let_def zones_ussd_trimmed [simplified] split: prod.splits)
qed

lemma handler_dispatch:
  assumes "sessions_get sessions (sessionId req) = Some s" and "lastInput_of (text_field req) \<noteq> []"
  shows "flow s = ''zones_risk_level_selection'' \<Longrightarrow>
           ussd_handler e sessions req =
             zones_branch e sessions (sessionId req) (phoneNumber req)
               (lastInput_of (text_field req))"
    and "flow s = ''symptoms_input'' \<Longrightarrow>
           ussd_handler e sessions req =
             symptoms_branch e sessions (sessionId req) (phoneNumber req)
               (lastInput_of (text_field req))"
    and "flow s = ''zone_problem_input'' \<Longrightarrow>
           ussd_handler e sessions req =
             zone_problem_branch e sessions (sessionId req) (phoneNumber req)
               (lastInput_of (text_field req))"
proof -
  show "flow s = ''zones_risk_level_selection'' \<Longrightarrow>
           ussd_handler e sessions req =
             zones_branch e sessions (sessionId req) (phoneNumber req)
               (lastInput_of (text_field req))"
    using assms by (simp add: ussd_handler_def Let_def load_session_stored)
  show "flow s = ''symptoms_input'' \<Longrightarrow>
           ussd_handler e sessions req =
             symptoms_branch e sessions (sessionId req) (phoneNumber req)
               (lastInput_of (text_field req))"
    using assms by (simp add: ussd_handler_def Let_def load_session_stored)
  show "flow s = ''zone_problem_input'' \<Longrightarrow>
           ussd_handler e sessions req =
             zone_problem_branch e sessions (sessionId req) (phoneNumber req)
               (lastInput_of (text_field req))"
    using assms by (simp add: ussd_handler_def Let_def load_session_stored)
qed

lemma sample_store_lookup:
  "sessions_get (sample_store f) ''ATUid_1'' = Some \<lparr>flow = f, data = []\<rparr>"
  by (simp add: sample_store_def sessions_get_def)

lemma lastInput_samples:
  "lastInput_of (Some ''1*1'') = ''1''"
  "lastInput_of (Some ''1*2'') = ''2''"
  "lastInput_of (Some ''1*4'') = ''4''"
  "lastInput_of (Some ''3*febre forte'') = ''febre forte''"
  "lastInput_of (Some '' '') = '' ''"
  by (simp_all add: lastInput_of_def)

lemma sample_request_fields:
  "sessionId (sample_request t) = ''ATUid_1''"
  "phoneNumber (sample_request t) = Some ''+244923456789''"
  "text_field (sample_request t) = Some t"
  by (simp_all add: sample_request_def)

lemma sample_sms_confirmation:
  "b \<noteq> [] \<Longrightarrow>
   sendTwilioSms (sample_env\<lparr>ai := a\<rparr>) (Some ''+244923456789'') b =
     (''SMS enviado para +244923456789!'',
      [\<lparr>msg_body = b, msg_from = ''+15005550006'', msg_to = ''+244923456789''\<rparr>])"
  by (simp add: sendTwilioSms_def sample_env_def e164_like_def is_digit_js_def
      accepting_provider_def)

lemma sample_env_ai: "sample_env\<lparr>ai := None\<rparr> = sample_env"
  by (simp add: sample_env_def)

section \<open>Facts about the formatters\<close>

lemma fold_append_entries:
  "fold (\<lambda>x msg. msg @ f x) xs start = start @ concat (map f xs)"
  by (induction xs arbitrary: start) simp_all

section \<open>Claims\<close>

text \<open>
  C4. The extracted last input token is the empty string when \<^verbatim>\<open>text\<close> is
  absent or empty, the whole of \<^verbatim>\<open>text\<close> when it holds no \<open>*\<close>, and otherwise
  the substring after the final \<open>*\<close>: \<^verbatim>\<open>text\<close> ends with \<open>*\<close> followed by the
  token, and the token itself holds no \<open>*\<close>.
\<close>

theorem lastInput_extraction:
  "lastInput_of None = []
   \<and> lastInput_of (Some []) = []
   \<and> (CHR ''*'' \<notin> set t \<longrightarrow> lastInput_of (Some t) = t)
   \<and> (CHR ''*'' \<in> set t \<longrightarrow>
        (\<exists>pre. t = pre @ ''*'' @ lastInput_of (Some t))
        \<and> CHR ''*'' \<notin> set (lastInput_of (Some t)))"
proof -
  have a: "lastInput_of None = []" and b: "lastInput_of (Some []) = []"
    by (simp_all add: lastInput_of_def)
  have c: "CHR ''*'' \<notin> set t \<longrightarrow> lastInput_of (Some t) = t"
    by (simp add: lastInput_of_def includes_single)
  have d: "CHR ''*'' \<in> set t \<longrightarrow>
        (\<exists>pre. t = pre @ ''*'' @ lastInput_of (Some t))
        \<and> CHR ''*'' \<notin> set (lastInput_of (Some t))"
  proof
    assume star: "CHR ''*'' \<in> set t"
    then have ne: "t \<noteq> []" by auto
    have "lastInput_of (Some t) = last (split_js (CHR ''*'') t)"
      using star ne
      by (simp add: lastInput_of_def includes_single pop_js_last split_js_nonempty)
    then show "(\<exists>pre. t = pre @ ''*'' @ lastInput_of (Some t))
        \<and> CHR ''*'' \<notin> set (lastInput_of (Some t))"
      using last_split_js_suffix [OF star] last_split_js_free [of "CHR ''*''" t]
      by simp
  qed
  from a b c d show ?thesis by blast
qed

theorem lastInput_extraction_witness:
  "lastInput_of (Some ''1*2*35'') = ''35''
   \<and> lastInput_of (Some ''7'') = ''7''
   \<and> lastInput_of (Some ''1*'') = []"
proof -
  have "\<exists>pre. ''1*2*35'' = pre @ ''*'' @ lastInput_of (Some ''1*2*35'')"
    using lastInput_extraction [of "''1*2*35''"] by simp
  moreover have "lastInput_of (Some ''7'') = ''7''"
    using lastInput_extraction [of "''7''"] by simp
  ultimately show ?thesis
    by (simp add: lastInput_of_def)
qed

text \<open>
  C1. A body that begins with \<open>END\<close> is always sent together with
  \<^verbatim>\<open>delete sessions[sessionId]\<close>, but for the session identifier
  \<^verbatim>\<open>__proto__\<close> the deletion removes nothing. Starting from the empty
  store, a first request with that identifier and an empty text installs the
  session in flow \<^verbatim>\<open>menu\<close>; a second request with token 9 is answered with
  the invalid-selection \<open>END\<close> response, and afterwards the read of
  \<^verbatim>\<open>sessions[sessionId]\<close> still finds the session in flow \<^verbatim>\<open>menu\<close>, so
  that a third request with token 1 is answered from the menu, not as a new
  dialog.
\<close>

theorem proto_session_survives_end:
  "store_after (ussd_handler sample_env fresh_store (proto_request [])) =
     \<lparr>own = Map.empty, proto = Some \<lparr>flow = ''menu'', data = []\<rparr>\<rparr>
   \<and> response (ussd_handler sample_env
         \<lparr>own = Map.empty, proto = Some \<lparr>flow = ''menu'', data = []\<rparr>\<rparr> (proto_request ''9''))
       = ''END Sele'' @ [CHR 0xE7, CHR 0xE3] @ ''o inv'' @ [CHR 0xE1] @ ''lida.''
   \<and> sessions_get
         (store_after (ussd_handler sample_env
            \<lparr>own = Map.empty, proto = Some \<lparr>flow = ''menu'', data = []\<rparr>\<rparr> (proto_request ''9'')))
         ''__proto__''
       = Some \<lparr>flow = ''menu'', data = []\<rparr>
   \<and> sessions_get
         (store_after (ussd_handler sample_env
            \<lparr>own = Map.empty, proto = Some \<lparr>flow = ''menu'', data = []\<rparr>\<rparr> (proto_request ''1'')))
         ''__proto__''
       = Some \<lparr>flow = ''zones_risk_level_selection'', data = []\<rparr>"
  by (simp add: ussd_handler_def load_session_def fresh_store_def proto_request_def
      lastInput_of_def menu_branch_def sessions_get_def sessions_set_def sessions_delete_def)

text \<open>
  C3. When the extracted token is empty and the stored flow is neither
  \<^verbatim>\<open>initial\<close> nor \<^verbatim>\<open>menu\<close>, the handler stores a session in flow
  \<^verbatim>\<open>menu\<close> with empty data under the request's key and answers with the
  main menu, which is a \<open>CON\<close> response; no SMS is sent.
\<close>

theorem empty_token_recovery:
  assumes "sessions_get sessions (sessionId req) = Some s"
    and "flow s \<noteq> ''initial''" and "flow s \<noteq> ''menu''"
    and "lastInput_of (text_field req) = []"
  shows "ussd_handler e sessions req =
           \<lparr>response = mainMenu,
            store_after = sessions_set sessions (sessionId req) \<lparr>flow = ''menu'', data = []\<rparr>,
            sms_calls = []\<rparr>
         \<and> take 4 mainMenu = ''CON ''"
proof (cases "flow s = []")
  case True
  with assms have "load_session sessions (sessionId req)
      = (sessions_set sessions (sessionId req) \<lparr>flow = ''initial'', data = []\<rparr>,
         \<lparr>flow = ''initial'', data = []\<rparr>)"
    by (simp add: load_session_def)
  with assms show ?thesis
    by (simp add: ussd_handler_def Let_def mainMenu_def sessions_set_twice)
next
  case False
  with assms have "load_session sessions (sessionId req) = (sessions, s)"
    by (simp add: load_session_stored)
  with assms show ?thesis
    by (simp add: ussd_handler_def Let_def mainMenu_def)
qed

theorem empty_token_recovery_witness:
  "response (ussd_handler sample_env (sample_store ''symptoms_input'')
      (sample_request ''1*3*'')) = mainMenu
   \<and> sessions_get (store_after (ussd_handler sample_env (sample_store ''symptoms_input'')
        (sample_request ''1*3*''))) ''ATUid_1''
       = Some \<lparr>flow = ''menu'', data = []\<rparr>"
  using empty_token_recovery [of "sample_store ''symptoms_input''" "sample_request ''1*3*''"
      "\<lparr>flow = ''symptoms_input'', data = []\<rparr>" sample_env]
  by (simp add: sample_store_lookup sample_request_fields lastInput_of_def sessions_get_set)

text \<open>
  C6, as the code has it. For every \<^verbatim>\<open>to\<close> that does not match the pattern
  (an optional \<open>+\<close>, a first digit 1--9, 2 to 15 digits in all), among them
  \<open>abc\<close> and the empty string, sendTwilioSms makes no provider call and
  returns a rejection text: the service-unavailable text when the Twilio
  client is not initialised, the missing-argument text when \<^verbatim>\<open>to\<close> or
  \<^verbatim>\<open>body\<close> is empty, and otherwise the invalid-number text quoting
  \<^verbatim>\<open>to\<close>.
\<close>

theorem sendTwilioSms_rejects_nonmatching:
  assumes "\<forall>t. to_arg = Some t \<longrightarrow> \<not> e164_like t"
  shows "sendTwilioSms e to_arg body_arg =
           (case twilioClient e of
              None \<Rightarrow>
                ''Servi'' @ [CHR 0xE7] @ ''o SMS indispon'' @ [CHR 0xED]
                @ ''vel. Verifique as credenciais Twilio.''
            | Some create \<Rightarrow>
                (case to_arg of
                   None \<Rightarrow>
                     ''N'' @ [CHR 0xFA] @ ''mero do destinat'' @ [CHR 0xE1]
                     @ ''rio ou mensagem em falta.''
                 | Some t \<Rightarrow>
                     if t = [] \<or> body_arg = [] then
                       ''N'' @ [CHR 0xFA] @ ''mero do destinat'' @ [CHR 0xE1]
                       @ ''rio ou mensagem em falta.''
                     else
                       ''N'' @ [CHR 0xFA] @ ''mero de destino ('' @ t @ '') inv''
                       @ [CHR 0xE1]
                       @ ''lido. Use formato internacional (ex: +244XXXXXXXXX).''),
            [])"
  using assms by (simp add: sendTwilioSms_def split: option.splits)

theorem sendTwilioSms_rejects_nonmatching_witness:
  "\<not> e164_like ''abc'' \<and> \<not> e164_like []
   \<and> sendTwilioSms sample_env (Some ''abc'') ''Ola'' =
       (''N'' @ [CHR 0xFA] @ ''mero de destino (abc) inv'' @ [CHR 0xE1]
        @ ''lido. Use formato internacional (ex: +244XXXXXXXXX).'', [])
   \<and> sendTwilioSms sample_env (Some []) ''Ola'' =
       (''N'' @ [CHR 0xFA] @ ''mero do destinat'' @ [CHR 0xE1]
        @ ''rio ou mensagem em falta.'', [])"
proof -
  have a: "\<not> e164_like ''abc''" and b: "\<not> e164_like []"
    by (simp_all add: e164_like_def)
  from a have a': "\<forall>t. Some ''abc'' = Some t \<longrightarrow> \<not> e164_like t" by simp
  from b have b': "\<forall>t. Some [] = Some t \<longrightarrow> \<not> e164_like t" by simp
  show ?thesis
    using a b sendTwilioSms_rejects_nonmatching [OF a', of sample_env "''Ola''"]
      sendTwilioSms_rejects_nonmatching [OF b', of sample_env "''Ola''"]
    by (simp add: sample_env_def)
qed

text \<open>
  C6 as it is written fails twice. The string \<open>12345\<close>, which the claim lists
  as malformed, matches the pattern (first digit 1, five digits), and with an
  initialised client it is handed to the provider. And with no client the text
  returned for \<open>abc\<close> is the service-unavailable one, not a validation
  failure.
\<close>

theorem sendTwilioSms_12345_counterexample:
  "e164_like ''12345''
   \<and> sendTwilioSms sample_env (Some ''12345'') ''Ola'' =
       (''SMS enviado para 12345!'',
        [\<lparr>msg_body = ''Ola'', msg_from = ''+15005550006'', msg_to = ''12345''\<rparr>])
   \<and> sendTwilioSms (sample_env\<lparr>twilioClient := None\<rparr>) (Some ''abc'') ''Ola'' =
       (''Servi'' @ [CHR 0xE7] @ ''o SMS indispon'' @ [CHR 0xED]
        @ ''vel. Verifique as credenciais Twilio.'', [])"
  by (simp add: sendTwilioSms_def sample_env_def e164_like_def is_digit_js_def
      accepting_provider_def)

text \<open>
  C9. With the AI client not initialised, getMalariaProbabilityJS and
  getZoneSolutionJS both return the same non-empty fallback text for every
  description; they return it as a value, no error is raised on the way.
\<close>

theorem ai_uninitialised_fallback:
  assumes "ai e = None"
  shows "getMalariaProbabilityJS e d =
           ''Servi'' @ [CHR 0xE7] @ ''o de IA indispon'' @ [CHR 0xED]
           @ ''vel. Verifique a configura'' @ [CHR 0xE7, CHR 0xE3] @ ''o da API_KEY.''
         \<and> getZoneSolutionJS e d =
           ''Servi'' @ [CHR 0xE7] @ ''o de IA indispon'' @ [CHR 0xED]
           @ ''vel. Verifique a configura'' @ [CHR 0xE7, CHR 0xE3] @ ''o da API_KEY.''
         \<and> getMalariaProbabilityJS e d \<noteq> []
         \<and> getZoneSolutionJS e d \<noteq> []"
  using assms by (simp add: getMalariaProbabilityJS_def getZoneSolutionJS_def)

theorem ai_uninitialised_fallback_witness:
  "ai sample_env = None
   \<and> getMalariaProbabilityJS sample_env ''febre forte'' \<noteq> []
   \<and> getZoneSolutionJS sample_env ''febre forte'' \<noteq> []"
proof -
  have h: "ai sample_env = None" by (simp add: sample_env_def)
  from ai_uninitialised_fallback [OF h, of "''febre forte''"] h show ?thesis by simp
qed

text \<open>
  C2, as the code has it. In flow \<^verbatim>\<open>zones_risk_level_selection\<close>, for every
  token among 1, 2, 3 and 4, the handler hands a fixed, simulated list of
  three zones to sendTwilioSms, the same list whichever token was given and
  with no filtering by risk level, answers with an \<open>END\<close> response made of that
  list, a line feed and the text sendTwilioSms returned, and runs
  \<^verbatim>\<open>delete sessions[sessionId]\<close>.
\<close>

theorem zones_selection_sends_fixed_list:
  assumes "sessions_get sessions (sessionId req) = Some s"
    and "flow s = ''zones_risk_level_selection''"
    and "lastInput_of (text_field req) \<in> {''1'', ''2'', ''3'', ''4''}"
  shows "ussd_handler e sessions req =
     \<lparr>response = ''END Zonas (Simulado):'' @ [CHR 0x0A] @ ''1. Cl'' @ [CHR 0xED]
        @ ''nica CSE (Alto)'' @ [CHR 0x0A] @ ''2. ISPTC Talatona (M'' @ [CHR 0xE9] @ ''dio)''
        @ [CHR 0x0A] @ ''3. Mercado Kifica (Baixo)'' @ [CHR 0x0A]
        @ fst (sendTwilioSms e (phoneNumber req)
            (''Zonas Risco (MapaZZZ):'' @ [CHR 0x0A] @ ''1. Cl'' @ [CHR 0xED]
             @ ''nica CSE (Alto)'' @ [CHR 0x0A] @ ''2. ISPTC Talatona (M'' @ [CHR 0xE9]
             @ ''dio)'' @ [CHR 0x0A] @ ''3. Mercado Kifica (Baixo)'')),
      store_after = sessions_delete sessions (sessionId req),
      sms_calls = snd (sendTwilioSms e (phoneNumber req)
            (''Zonas Risco (MapaZZZ):'' @ [CHR 0x0A] @ ''1. Cl'' @ [CHR 0xED]
             @ ''nica CSE (Alto)'' @ [CHR 0x0A] @ ''2. ISPTC Talatona (M'' @ [CHR 0xE9]
             @ ''dio)'' @ [CHR 0x0A] @ ''3. Mercado Kifica (Baixo)''))\<rparr>"
proof -
  from assms have l: "load_session sessions (sessionId req) = (sessions, s)"
    by (simp add: load_session_stored)
  from assms(3) have ne: "lastInput_of (text_field req) \<noteq> []" by auto
  have "ussd_handler e sessions req =
      zones_branch e sessions (sessionId req) (phoneNumber req) (lastInput_of (text_field req))"
    using l ne assms(2) by (simp add: ussd_handler_def Let_def)
  with assms(3) show ?thesis by (simp only: zones_branch_selected)
qed

theorem zones_selection_sends_fixed_list_witness:
  "ussd_handler sample_env (sample_store ''zones_risk_level_selection'') (sample_request ''1*2'') =
     \<lparr>response =
        ''END Zonas (Simulado):'' @ [CHR 0x0A] @ ''1. Cl'' @ [CHR 0xED] @ ''nica CSE (Alto)''
        @ [CHR 0x0A] @ ''2. ISPTC Talatona (M'' @ [CHR 0xE9] @ ''dio)'' @ [CHR 0x0A]
        @ ''3. Mercado Kifica (Baixo)'' @ [CHR 0x0A] @ ''SMS enviado para +244923456789!'',
      store_after = sessions_delete (sample_store ''zones_risk_level_selection'') ''ATUid_1'',
      sms_calls =
        [\<lparr>msg_body = ''Zonas Risco (MapaZZZ):'' @ [CHR 0x0A] @ ''1. Cl'' @ [CHR 0xED]
             @ ''nica CSE (Alto)'' @ [CHR 0x0A] @ ''2. ISPTC Talatona (M'' @ [CHR 0xE9]
             @ ''dio)'' @ [CHR 0x0A] @ ''3. Mercado Kifica (Baixo)'',
          msg_from = ''+15005550006'', msg_to = ''+244923456789''\<rparr>]\<rparr>"
proof -
  show ?thesis
    using zones_selection_sends_fixed_list
      [of "sample_store ''zones_risk_level_selection''" "sample_request ''1*2''"
        "\<lparr>flow = ''zones_risk_level_selection'', data = []\<rparr>" sample_env]
      sample_sms_confirmation [of _ None]
    by (simp add: sample_store_lookup lastInput_samples sample_request_fields sample_env_ai)
qed

text \<open>
  C2 as it is written asks for the list filtered by the selected risk level.
  With token 1, that is \<open>Alto\<close>, the response still lists the zone of risk
  \<open>Baixo\<close>.
\<close>

theorem zones_selection_counterexample:
  "response (ussd_handler sample_env (sample_store ''zones_risk_level_selection'')
      (sample_request ''1*1'')) =
     ''END Zonas (Simulado):'' @ [CHR 0x0A] @ ''1. Cl'' @ [CHR 0xED] @ ''nica CSE (Alto)''
     @ [CHR 0x0A] @ ''2. ISPTC Talatona (M'' @ [CHR 0xE9] @ ''dio)'' @ [CHR 0x0A]
     @ ''3. Mercado Kifica (Baixo)'' @ [CHR 0x0A] @ ''SMS enviado para +244923456789!''
   \<and> includes_js
        (response (ussd_handler sample_env (sample_store ''zones_risk_level_selection'')
           (sample_request ''1*1'')))
        ''3. Mercado Kifica (Baixo)''"
proof -
  have d: "ussd_handler sample_env (sample_store ''zones_risk_level_selection'')
             (sample_request ''1*1'') =
           zones_branch sample_env (sample_store ''zones_risk_level_selection'') ''ATUid_1''
             (Some ''+244923456789'') ''1''"
    using handler_dispatch(1) [of "sample_store ''zones_risk_level_selection''"
        "sample_request ''1*1''" "\<lparr>flow = ''zones_risk_level_selection'', data = []\<rparr>"
        sample_env]
    by (simp add: sample_store_lookup lastInput_samples sample_request_fields)
  have r: "response (ussd_handler sample_env (sample_store ''zones_risk_level_selection'')
      (sample_request ''1*1'')) =
     ''END Zonas (Simulado):'' @ [CHR 0x0A] @ ''1. Cl'' @ [CHR 0xED] @ ''nica CSE (Alto)''
     @ [CHR 0x0A] @ ''2. ISPTC Talatona (M'' @ [CHR 0xE9] @ ''dio)'' @ [CHR 0x0A]
     @ ''3. Mercado Kifica (Baixo)'' @ [CHR 0x0A] @ ''SMS enviado para +244923456789!''"
    unfolding d
    using zones_branch_selected [of "''1''" sample_env
        "sample_store ''zones_risk_level_selection''" "''ATUid_1''" "Some ''+244923456789''"]
      sample_sms_confirmation [of _ None]
    by (simp add: sample_env_ai)
  show ?thesis unfolding r by simp
qed

text \<open>
  C5, as the code has it. In flows \<^verbatim>\<open>symptoms_input\<close> and
  \<^verbatim>\<open>zone_problem_input\<close>, with a token that is not blank (something is left
  after trimming white space): when the text returned by the analysis holds
  one of the failure markers, the response is \<open>END\<close> followed by that text
  alone and sendTwilioSms is not called; otherwise sendTwilioSms is called
  with a body that echoes the result, and the response is \<open>END\<close>, the label,
  the result, a space and the text sendTwilioSms returned. Either way
  \<^verbatim>\<open>delete sessions[sessionId]\<close> is run.
\<close>

theorem analysis_result_classification:
  assumes "sessions_get sessions (sessionId req) = Some s"
    and "trim_js (lastInput_of (text_field req)) \<noteq> []"
  shows "(flow s = ''symptoms_input'' \<longrightarrow>
           ussd_handler e sessions req =
             (let analysisResult = getMalariaProbabilityJS e (lastInput_of (text_field req))
              in if includes_js analysisResult (''indispon'' @ [CHR 0xED] @ ''vel'')
                    \<or> includes_js analysisResult ''Erro ao analisar''
                    \<or> includes_js analysisResult ''Nenhum sintoma fornecido''
                 then \<lparr>response = ''END '' @ analysisResult,
                       store_after = sessions_delete sessions (sessionId req),
                       sms_calls = []\<rparr>
                 else \<lparr>response = ''END An'' @ [CHR 0xE1] @ ''lise: '' @ analysisResult @ '' ''
                         @ fst (sendTwilioSms e (phoneNumber req)
                                 (''Resultado da sua an'' @ [CHR 0xE1]
                                  @ ''lise de sintomas (USSD MapaZZZ): '' @ analysisResult)),
                       store_after = sessions_delete sessions (sessionId req),
                       sms_calls = snd (sendTwilioSms e (phoneNumber req)
                                 (''Resultado da sua an'' @ [CHR 0xE1]
                                  @ ''lise de sintomas (USSD MapaZZZ): '' @ analysisResult))\<rparr>))
       \<and> (flow s = ''zone_problem_input'' \<longrightarrow>
           ussd_handler e sessions req =
             (let solutionResult = getZoneSolutionJS e (lastInput_of (text_field req))
              in if includes_js solutionResult (''indispon'' @ [CHR 0xED] @ ''vel'')
                    \<or> includes_js solutionResult ''Erro ao obter''
                    \<or> includes_js solutionResult
                         (''Nenhuma descri'' @ [CHR 0xE7, CHR 0xE3] @ ''o do problema'')
                 then \<lparr>response = ''END '' @ solutionResult,
                       store_after = sessions_delete sessions (sessionId req),
                       sms_calls = []\<rparr>
                 else \<lparr>response = ''END Sugest'' @ [CHR 0xE3] @ ''o: '' @ solutionResult @ '' ''
                         @ fst (sendTwilioSms e (phoneNumber req)
                                 (''Sugest'' @ [CHR 0xE3]
                                  @ ''o para o problema na sua zona (USSD MapaZZZ): ''
                                  @ solutionResult)),
                       store_after = sessions_delete sessions (sessionId req),
                       sms_calls = snd (sendTwilioSms e (phoneNumber req)
                                 (''Sugest'' @ [CHR 0xE3]
                                  @ ''o para o problema na sua zona (USSD MapaZZZ): ''
                                  @ solutionResult))\<rparr>))"
proof -
  from assms(2) have ne: "lastInput_of (text_field req) \<noteq> []"
    by (auto simp add: trim_js_def)
  have a: "flow s = ''symptoms_input'' \<Longrightarrow> ?thesis"
    using handler_dispatch(2) [of sessions req s e] assms ne
    by (simp add: symptoms_branch_def Let_def split: prod.splits)
  have b: "flow s = ''zone_problem_input'' \<Longrightarrow> ?thesis"
    using handler_dispatch(3) [of sessions req s e] assms ne
    by (simp add: zone_problem_branch_def Let_def split: prod.splits)
  from a b show ?thesis by blast
qed

theorem analysis_result_classification_witness:
  "ussd_handler (sample_env\<lparr>ai := Some answering_ai\<rparr>) (sample_store ''symptoms_input'')
     (sample_request ''3*febre forte'') =
     \<lparr>response = ''END An'' @ [CHR 0xE1] @ ''lise: 85% (Sintomas cl'' @ [CHR 0xE1]
        @ ''ssicos.) SMS enviado para +244923456789!'',
      store_after = sessions_delete (sample_store ''symptoms_input'') ''ATUid_1'',
      sms_calls =
        [\<lparr>msg_body = ''Resultado da sua an'' @ [CHR 0xE1]
             @ ''lise de sintomas (USSD MapaZZZ): 85% (Sintomas cl'' @ [CHR 0xE1]
             @ ''ssicos.)'',
          msg_from = ''+15005550006'', msg_to = ''+244923456789''\<rparr>]\<rparr>
   \<and> ussd_handler sample_env (sample_store ''zone_problem_input'')
     (sample_request ''3*febre forte'') =
     \<lparr>response = ''END Servi'' @ [CHR 0xE7] @ ''o de IA indispon'' @ [CHR 0xED]
        @ ''vel. Verifique a configura'' @ [CHR 0xE7, CHR 0xE3] @ ''o da API_KEY.'',
      store_after = sessions_delete (sample_store ''zone_problem_input'') ''ATUid_1'',
      sms_calls = []\<rparr>"
proof -
  have t: "trim_js ''febre forte'' \<noteq> []"
    by (simp add: trim_js_def is_space_js_def)
  have g: "getMalariaProbabilityJS (sample_env\<lparr>ai := Some answering_ai\<rparr>) ''febre forte''
      = ''85% (Sintomas cl'' @ [CHR 0xE1] @ ''ssicos.)''"
    by (simp add: getMalariaProbabilityJS_def sample_env_def answering_ai_def trim_js_def
        is_space_js_def)
  have z: "getZoneSolutionJS sample_env ''febre forte''
      = ''Servi'' @ [CHR 0xE7] @ ''o de IA indispon'' @ [CHR 0xED]
        @ ''vel. Verifique a configura'' @ [CHR 0xE7, CHR 0xE3] @ ''o da API_KEY.''"
    by (simp add: getZoneSolutionJS_def sample_env_def)
  have a: "ussd_handler (sample_env\<lparr>ai := Some answering_ai\<rparr>) (sample_store ''symptoms_input'')
     (sample_request ''3*febre forte'') =
     \<lparr>response = ''END An'' @ [CHR 0xE1] @ ''lise: 85% (Sintomas cl'' @ [CHR 0xE1]
        @ ''ssicos.) SMS enviado para +244923456789!'',
      store_after = sessions_delete (sample_store ''symptoms_input'') ''ATUid_1'',
      sms_calls =
        [\<lparr>msg_body = ''Resultado da sua an'' @ [CHR 0xE1]
             @ ''lise de sintomas (USSD MapaZZZ): 85% (Sintomas cl'' @ [CHR 0xE1]
             @ ''ssicos.)'',
          msg_from = ''+15005550006'', msg_to = ''+244923456789''\<rparr>]\<rparr>"
    using analysis_result_classification
      [of "sample_store ''symptoms_input''" "sample_request ''3*febre forte''"
        "\<lparr>flow = ''symptoms_input'', data = []\<rparr>" "sample_env\<lparr>ai := Some answering_ai\<rparr>"]
      t sample_sms_confirmation [of _ "Some answering_ai"]
    by (simp add: sample_store_lookup lastInput_samples sample_request_fields g)
  have b: "ussd_handler sample_env (sample_store ''zone_problem_input'')
     (sample_request ''3*febre forte'') =
     \<lparr>response = ''END Servi'' @ [CHR 0xE7] @ ''o de IA indispon'' @ [CHR 0xED]
        @ ''vel. Verifique a configura'' @ [CHR 0xE7, CHR 0xE3] @ ''o da API_KEY.'',
      store_after = sessions_delete (sample_store ''zone_problem_input'') ''ATUid_1'',
      sms_calls = []\<rparr>"
    using analysis_result_classification
      [of "sample_store ''zone_problem_input''" "sample_request ''3*febre forte''"
        "\<lparr>flow = ''zone_problem_input'', data = []\<rparr>" sample_env]
      t
    by (simp add: sample_store_lookup lastInput_samples sample_request_fields z)
  from a b show ?thesis by blast
qed

text \<open>
  C5 as it is written speaks of every non-empty token. The token made of one
  space is not empty; the analysis, were it asked, would answer with a text
  that holds a failure marker; yet the response is the request to describe the
  symptoms, not \<open>END\<close> followed by that text.
\<close>

theorem blank_token_counterexample:
  "lastInput_of (Some '' '') = '' ''
   \<and> includes_js (getMalariaProbabilityJS sample_env '' '') (''indispon'' @ [CHR 0xED] @ ''vel'')
   \<and> ussd_handler sample_env (sample_store ''symptoms_input'') (sample_request '' '') =
       \<lparr>response = ''END Por favor, forne'' @ [CHR 0xE7] @ ''a uma descri''
          @ [CHR 0xE7, CHR 0xE3] @ ''o dos sintomas. Tente novamente.'',
        store_after = sessions_delete (sample_store ''symptoms_input'') ''ATUid_1'',
        sms_calls = []\<rparr>
   \<and> response (ussd_handler sample_env (sample_store ''symptoms_input'') (sample_request '' ''))
       \<noteq> ''END '' @ getMalariaProbabilityJS sample_env '' ''"
proof -
  have g: "getMalariaProbabilityJS sample_env '' ''
      = ''Servi'' @ [CHR 0xE7] @ ''o de IA indispon'' @ [CHR 0xED]
        @ ''vel. Verifique a configura'' @ [CHR 0xE7, CHR 0xE3] @ ''o da API_KEY.''"
    by (simp add: getMalariaProbabilityJS_def sample_env_def)
  have d: "ussd_handler sample_env (sample_store ''symptoms_input'') (sample_request '' '') =
       symptoms_branch sample_env (sample_store ''symptoms_input'') ''ATUid_1''
         (Some ''+244923456789'') '' ''"
    using handler_dispatch(2) [of "sample_store ''symptoms_input''" "sample_request '' ''"
        "\<lparr>flow = ''symptoms_input'', data = []\<rparr>" sample_env]
    by (simp add: sample_store_lookup lastInput_samples sample_request_fields)
  have b: "symptoms_branch sample_env (sample_store ''symptoms_input'') ''ATUid_1''
         (Some ''+244923456789'') '' '' =
       \<lparr>response = ''END Por favor, forne'' @ [CHR 0xE7] @ ''a uma descri''
          @ [CHR 0xE7, CHR 0xE3] @ ''o dos sintomas. Tente novamente.'',
        store_after = sessions_delete (sample_store ''symptoms_input'') ''ATUid_1'',
        sms_calls = []\<rparr>"
    by (simp add: symptoms_branch_def trim_js_def is_space_js_def)
  show ?thesis unfolding d b g by (simp add: lastInput_samples)
qed

text \<open>
  C7, as the code has it. When the report that formatReportsForUSSD shows, the
  first one that passes the filter, has a description longer than 70
  characters, the description is shown as its first 67 characters followed by
  three dots.
\<close>

theorem long_description_truncated:
  assumes "filteredReports_of rs mf = r # others"
    and "description r = Some d" and "length d > 70"
  shows "formatReportsForUSSD (Some rs) mf =
           trim_js (reports_header mf @ or_else (title r) ''N/A'' @ '': ''
                    @ take 67 d @ ''...''
                    @ '' (Risco: '' @ report_risk_text r @ '')'' @ [CHR 0x0A]
                    @ (if others = [] then []
                       else ''Mais '' @ string_of_nat (length others) @ '' reportagens.''))"
proof -
  from assms(1) have ne: "rs \<noteq> []"
    by (auto simp add: filteredReports_of_def split: if_splits)
  from assms(2,3) have dne: "d \<noteq> []" and sd: "shown_description r = take 67 d @ ''...''"
    by (auto simp add: shown_description_def)
  show ?thesis
    using ne assms(1)
    by (simp add: formatReportsForUSSD_def Let_def report_entry_def sd)
qed

theorem long_description_truncated_witness:
  "formatReportsForUSSD (Some [long_report 71]) None =
     ''Reportagens Geral:'' @ [CHR 0x0A] @ ''Lixo: '' @ replicate 67 (CHR ''a'')
     @ ''... (Risco: Alto)''"
proof -
  have f: "filteredReports_of [long_report 71] None = long_report 71 # []"
    by (simp add: filteredReports_of_def specific_municipality_def)
  have d: "description (long_report 71) = Some (replicate 71 (CHR ''a''))"
    by (simp add: long_report_def)
  have l: "length (replicate 71 (CHR ''a'')) > 70" by simp
  have t: "trim_js (reports_header None @ or_else (title (long_report 71)) ''N/A'' @ '': ''
                    @ take 67 (replicate 71 (CHR ''a'')) @ ''...''
                    @ '' (Risco: '' @ report_risk_text (long_report 71) @ '')'' @ [CHR 0x0A]
                    @ (if ([]::report list) = [] then []
                       else ''Mais '' @ string_of_nat (length ([]::report list)) @ '' reportagens.''))
     = ''Reportagens Geral:'' @ [CHR 0x0A] @ ''Lixo: '' @ replicate 67 (CHR ''a'')
     @ ''... (Risco: Alto)''"
    by code_simp
  from long_description_truncated [OF f d l] t show ?thesis by simp
qed

text \<open>
  C7 as it is written puts the threshold at 67 characters. A description of
  68 characters is shown whole.
\<close>

theorem description_of_68_counterexample:
  "length (replicate 68 (CHR ''a'')) > 67
   \<and> formatReportsForUSSD (Some [long_report 68]) None =
       ''Reportagens Geral:'' @ [CHR 0x0A] @ ''Lixo: '' @ replicate 68 (CHR ''a'')
       @ '' (Risco: Alto)''
   \<and> formatReportsForUSSD (Some [long_report 68]) None \<noteq>
       ''Reportagens Geral:'' @ [CHR 0x0A] @ ''Lixo: '' @ take 67 (replicate 68 (CHR ''a''))
       @ ''...'' @ '' (Risco: Alto)''"
  by code_simp

text \<open>
  C8. Whatever the list and the filter, the text formatZonesForUSSD returns is
  either the none-found message or the header, one entry for each of at most
  5 zones from the front of the filtered list, and the count of the zones
  left out; the text formatReportsForUSSD returns is either a none-found
  message or the header, one entry for at most 1 report from the front of the
  filtered list, and the count of the reports left out.
\<close>

theorem formatters_cap_entries:
  "(formatZonesForUSSD zones zf = zones_none_found zf
    \<or> (\<exists>zs shown hidden.
          zones = Some zs \<and> filteredZones_of zs zf = shown @ hidden \<and> length shown \<le> 5
          \<and> formatZonesForUSSD zones zf =
              trim_js (zones_header zf @ concat (map zone_entry (enumerate 0 shown))
                       @ (if hidden = [] then []
                          else ''Mais '' @ string_of_nat (length hidden)
                               @ '' zonas dispon'' @ [CHR 0xED] @ ''veis.''))))
   \<and> (formatReportsForUSSD reports mf =
        ''Nenhuma reportagem ''
        @ (if truthy mf then ''para '' @ or_else mf [] @ '' '' else [])
        @ ''encontrada.''
      \<or> (\<exists>rs shown hidden.
            reports = Some rs \<and> filteredReports_of rs mf = shown @ hidden
            \<and> length shown \<le> 1
            \<and> formatReportsForUSSD reports mf =
                trim_js (reports_header mf @ concat (map report_entry shown)
                         @ (if hidden = [] then []
                            else ''Mais '' @ string_of_nat (length hidden)
                                 @ '' reportagens.''))))"
proof -
  have z: "formatZonesForUSSD zones zf = zones_none_found zf
    \<or> (\<exists>zs shown hidden.
          zones = Some zs \<and> filteredZones_of zs zf = shown @ hidden \<and> length shown \<le> 5
          \<and> formatZonesForUSSD zones zf =
              trim_js (zones_header zf @ concat (map zone_entry (enumerate 0 shown))
                       @ (if hidden = [] then []
                          else ''Mais '' @ string_of_nat (length hidden)
                               @ '' zonas dispon'' @ [CHR 0xED] @ ''veis.'')))"
  proof (cases zones)
    case None
    then show ?thesis by (simp add: formatZonesForUSSD_def)
  next
    case (Some zs)
    show ?thesis
    proof (cases "zs = [] \<or> filteredZones_of zs zf = []")
      case True
      with Some show ?thesis by (auto simp add: formatZonesForUSSD_def Let_def)
    next
      case False
      let ?fz = "filteredZones_of zs zf"
      have "formatZonesForUSSD zones zf =
              trim_js (zones_header zf @ concat (map zone_entry (enumerate 0 (take 5 ?fz)))
                       @ (if drop 5 ?fz = [] then []
                          else ''Mais '' @ string_of_nat (length (drop 5 ?fz))
                               @ '' zonas dispon'' @ [CHR 0xED] @ ''veis.''))"
        using Some False
        by (simp add: formatZonesForUSSD_def Let_def fold_append_entries
            del: length_take length_drop)
           (simp add: min_def)
      moreover have "?fz = take 5 ?fz @ drop 5 ?fz" by simp
      moreover have "length (take 5 ?fz) \<le> 5" by simp
      ultimately show ?thesis using Some by blast
    qed
  qed
  have r: "formatReportsForUSSD reports mf =
        ''Nenhuma reportagem ''
        @ (if truthy mf then ''para '' @ or_else mf [] @ '' '' else [])
        @ ''encontrada.''
      \<or> (\<exists>rs shown hidden.
            reports = Some rs \<and> filteredReports_of rs mf = shown @ hidden
            \<and> length shown \<le> 1
            \<and> formatReportsForUSSD reports mf =
                trim_js (reports_header mf @ concat (map report_entry shown)
                         @ (if hidden = [] then []
                            else ''Mais '' @ string_of_nat (length hidden)
                                 @ '' reportagens.'')))"
  proof (cases reports)
    case None
    then show ?thesis by (simp add: formatReportsForUSSD_def)
  next
    case (Some rs)
    show ?thesis
    proof (cases "rs = [] \<or> (filteredReports_of rs mf = [] \<and> specific_municipality mf)")
      case True
      with Some show ?thesis
        by (cases mf) (auto simp add: formatReportsForUSSD_def Let_def specific_municipality_def)
    next
      case False
      let ?fr = "filteredReports_of rs mf"
      from False have ne: "?fr \<noteq> []"
        by (auto simp add: filteredReports_of_def)
      have "formatReportsForUSSD reports mf =
                trim_js (reports_header mf @ concat (map report_entry (take 1 ?fr))
                         @ (if drop 1 ?fr = [] then []
                            else ''Mais '' @ string_of_nat (length (drop 1 ?fr))
                                 @ '' reportagens.''))"
        using Some False ne
        by (simp add: formatReportsForUSSD_def Let_def fold_append_entries
            del: length_take length_drop)
           (simp add: min_def)
      moreover have "?fr = take 1 ?fr @ drop 1 ?fr" by simp
      moreover have "length (take 1 ?fr) \<le> 1" by simp
      ultimately show ?thesis using Some by blast
    qed
  qed
  from z r show ?thesis by blast
qed

text \<open>
  C10. In flow \<^verbatim>\<open>zones_risk_level_selection\<close>, two requests of the same
  session and telephone number whose tokens are both among 1, 2, 3 and 4 have
  the same outcome: the same response, the same store, and the same message
  handed to the SMS provider. The selected risk level has no influence.
\<close>

theorem zones_selection_ignores_risk_level:
  assumes "sessions_get sessions (sessionId r1) = Some s"
    and "flow s = ''zones_risk_level_selection''"
    and "sessionId r2 = sessionId r1" and "phoneNumber r2 = phoneNumber r1"
    and "lastInput_of (text_field r1) \<in> {''1'', ''2'', ''3'', ''4''}"
    and "lastInput_of (text_field r2) \<in> {''1'', ''2'', ''3'', ''4''}"
  shows "ussd_handler e sessions r1 = ussd_handler e sessions r2"
proof -
  from assms(5) have n1: "lastInput_of (text_field r1) \<noteq> []" by auto
  from assms(6) have n2: "lastInput_of (text_field r2) \<noteq> []" by auto
  from assms(1,3) have s2: "sessions_get sessions (sessionId r2) = Some s" by simp
  have "ussd_handler e sessions r1 =
      zones_branch e sessions (sessionId r1) (phoneNumber r1) (lastInput_of (text_field r1))"
    using handler_dispatch(1) [of sessions r1 s e] assms(1,2) n1 by simp
  moreover have "ussd_handler e sessions r2 =
      zones_branch e sessions (sessionId r2) (phoneNumber r2) (lastInput_of (text_field r2))"
    using handler_dispatch(1) [of sessions r2 s e] s2 assms(2) n2 by simp
  ultimately show ?thesis
    using assms(3,4) zones_branch_selected [OF assms(5)] zones_branch_selected [OF assms(6)]
    by simp
qed

theorem zones_selection_ignores_risk_level_witness:
  "ussd_handler sample_env (sample_store ''zones_risk_level_selection'') (sample_request ''1*1'')
   = ussd_handler sample_env (sample_store ''zones_risk_level_selection'') (sample_request ''1*4'')"
  using zones_selection_ignores_risk_level
    [of "sample_store ''zones_risk_level_selection''" "sample_request ''1*1''"
      "\<lparr>flow = ''zones_risk_level_selection'', data = []\<rparr>" "sample_request ''1*4''" sample_env]
  by (simp add: sample_store_lookup lastInput_samples sample_request_fields)

end
